theory Spec2Isabelle
  imports Main "HOL-Library.Multiset"
begin

section \<open>The data-access layer of the cadet application (src/lib/supabase.ts)\<close>

text \<open>
  The module is a set of asynchronous wrappers around a hosted backend: table queries
  built with the SDK's query builder, authentication calls, and one HTTP POST to a remote
  function. TypeScript's types are erased at run time, so what the backend hands back is
  modelled as a JavaScript value, and what a wrapper resolves to or throws is a value of
  a sum type.
\<close>

subsection \<open>JavaScript values\<close>

text \<open>
  A \<open>number\<close> is an IEEE 754 double. A finite double other than the two zeros is
  \<open>\<plusminus> m * 2 ^ e\<close> for exactly one odd \<open>m\<close> and one \<open>e\<close>; it is a double when it can be
  written with a mantissa below \<open>2 ^ 53\<close> and an exponent from \<open>-1074\<close> to \<open>971\<close>. The
  triple holds the sign (\<open>True\<close> for negative), \<open>m\<close> and \<open>e\<close>.
\<close>

definition is_double :: "bool \<times> nat \<times> int \<Rightarrow> bool" where
  "is_double t =
     (case t of (negative, m, e) \<Rightarrow> odd m \<and> - 1074 \<le> e \<and> m * 2 ^ nat (e - 971) < 2 ^ 53)"

typedef double = "{t. is_double t}"
  by (rule exI [of _ "(False, 1, 0)"]) (simp add: is_double_def)

definition dbl :: "bool \<Rightarrow> nat \<Rightarrow> int \<Rightarrow> double" where
  "dbl negative m e = Abs_double (negative, m, e)"

text \<open>
  The other values of a \<open>number\<close>: the two zeros, and the three that JSON cannot write.
  The module does no arithmetic.
\<close>

datatype number = Finite double | PosZero | NegZero | NaN | PosInfinity | NegInfinity

datatype js =
    JUndefined
  | JNull
  | JBool bool
  | JNumber number
  | JString string
  | JArray "js list"
  | JObject "(string \<times> js) list"

text \<open>What \<open>if (v)\<close> and \<open>v || w\<close> test: every object and array is truthy.\<close>

fun truthy :: "js \<Rightarrow> bool" where
  "truthy JUndefined = False"
| "truthy JNull = False"
| "truthy (JBool b) = b"
| "truthy (JNumber n) = (n \<noteq> PosZero \<and> n \<noteq> NegZero \<and> n \<noteq> NaN)"
| "truthy (JString s) = (s \<noteq> [])"
| "truthy (JArray xs) = True"
| "truthy (JObject kvs) = True"

definition js_or :: "js \<Rightarrow> js \<Rightarrow> js" where
  "js_or a b = (if truthy a then a else b)"

text \<open>
  What a wrapper throws: a value thrown as it is (\<open>throw error\<close>, or a rejection
  passed on), a fresh \<open>new Error(m)\<close>, or the TypeError of reading a property of
  \<open>null\<close> or \<open>undefined\<close>.
\<close>

datatype exn = Thrown js | NewError js | TypeError

text \<open>
  \<open>v.k\<close> for the property names the module reads (\<open>error\<close>, \<open>cadet\<close>): an own
  property of an object, \<open>undefined\<close> on any other value that has properties.
\<close>

fun get_prop :: "js \<Rightarrow> string \<Rightarrow> exn + js" where
  "get_prop JUndefined k = Inl TypeError"
| "get_prop JNull k = Inl TypeError"
| "get_prop (JObject kvs) k = Inr (case map_of kvs k of Some v \<Rightarrow> v | None \<Rightarrow> JUndefined)"
| "get_prop v k = Inr JUndefined"

subsection \<open>Requests\<close>

text \<open>
  A table query as the builder chain describes it: \<open>from(t)\<close> starts it, \<open>select\<close>,
  \<open>update\<close> and \<open>delete\<close> set the verb, \<open>eq\<close> adds a filter, \<open>order\<close> a sort key,
  \<open>single\<close> asks for one row as an object. Awaiting the builder sends it.
\<close>

datatype verb = Unset | Select | Update "(string \<times> js) list" | Delete

record query =
  table :: string
  action :: verb
  columns :: "string option"
  filters :: "(string \<times> string) list"
  ordering :: "(string \<times> bool) list"
  one_row :: bool

definition sb_from :: "string \<Rightarrow> query" where
  "sb_from t = \<lparr>table = t, action = Unset, columns = None, filters = [],
                ordering = [], one_row = False\<rparr>"

text \<open>
  \<open>select(cols)\<close> after \<open>from\<close> reads rows; after \<open>update\<close> it keeps the verb and asks
  for the written rows back. With no argument the column list is \<open>*\<close>.
\<close>

definition sb_select :: "string \<Rightarrow> query \<Rightarrow> query" where
  "sb_select cols q =
     q\<lparr>action := (if action q = Unset then Select else action q), columns := Some cols\<rparr>"

definition sb_update :: "(string \<times> js) list \<Rightarrow> query \<Rightarrow> query" where
  "sb_update vals q = q\<lparr>action := Update vals\<rparr>"

definition sb_delete :: "query \<Rightarrow> query" where
  "sb_delete q = q\<lparr>action := Delete\<rparr>"

definition sb_eq :: "string \<Rightarrow> string \<Rightarrow> query \<Rightarrow> query" where
  "sb_eq col v q = q\<lparr>filters := filters q @ [(col, v)]\<rparr>"

definition sb_order :: "string \<Rightarrow> bool \<Rightarrow> query \<Rightarrow> query" where
  "sb_order col ascending q = q\<lparr>ordering := ordering q @ [(col, ascending)]\<rparr>"

definition sb_single :: "query \<Rightarrow> query" where
  "sb_single q = q\<lparr>one_row := True\<rparr>"

datatype auth_call =
    AuthSignUp string string
  | AuthSignInWithPassword string string
  | AuthSignOut
  | AuthGetUser

text \<open>
  The argument of \<open>fetch\<close>. The body is the JSON document that the text written by
  \<open>JSON.stringify\<close> denotes, not its characters.
\<close>

record http_request =
  url :: string
  http_method :: string
  headers :: "(string \<times> string) list"
  body :: js

datatype request = Query query | Auth auth_call | Fetch http_request

subsection \<open>Replies\<close>

text \<open>
  A table query resolves to \<open>{ data, error }\<close>. An authentication call resolves to
  \<open>{ data, error }\<close> whose \<open>data\<close> the SDK declares to be an object at all times, so
  only its properties are kept. \<open>fetch\<close> rejects, or resolves to a response with its
  \<open>ok\<close> flag and what \<open>response.json()\<close> gives: the parsed body, or a rejection.
\<close>

record sdk_reply =
  data :: js
  error :: js

record auth_reply =
  auth_data :: "(string \<times> js) list"
  auth_error :: js

datatype fetch_reply = Rejected js | Response bool "js + js"

subsection \<open>The backend and the client's state\<close>

text \<open>
  The backend is outside the module: it is a parameter. Its answer to a request may
  depend on every request sent before. The two environment variables are strings.
\<close>

record backend =
  supabaseUrl :: string
  supabaseAnonKey :: string
  postgrest :: "request list \<Rightarrow> query \<Rightarrow> sdk_reply"
  gotrue :: "request list \<Rightarrow> auth_call \<Rightarrow> auth_reply"
  http :: "request list \<Rightarrow> http_request \<Rightarrow> fetch_reply"

text \<open>
  What a call can change on the client: the requests sent so far, and the lines written
  with \<open>console.error(label, value)\<close>.
\<close>

record world =
  sent :: "request list"
  console :: "(string \<times> js) list"

definition await_query :: "backend \<Rightarrow> query \<Rightarrow> world \<Rightarrow> sdk_reply \<times> world" where
  "await_query supabase q w = (postgrest supabase (sent w) q, w\<lparr>sent := sent w @ [Query q]\<rparr>)"

definition await_auth :: "backend \<Rightarrow> auth_call \<Rightarrow> world \<Rightarrow> auth_reply \<times> world" where
  "await_auth supabase a w = (gotrue supabase (sent w) a, w\<lparr>sent := sent w @ [Auth a]\<rparr>)"

definition await_fetch :: "backend \<Rightarrow> http_request \<Rightarrow> world \<Rightarrow> fetch_reply \<times> world" where
  "await_fetch supabase h w = (http supabase (sent w) h, w\<lparr>sent := sent w @ [Fetch h]\<rparr>)"

definition console_error :: "string \<Rightarrow> js \<Rightarrow> world \<Rightarrow> world" where
  "console_error label v w = w\<lparr>console := console w @ [(label, v)]\<rparr>"

subsection \<open>Data fetching functions\<close>

definition getCadets :: "backend \<Rightarrow> world \<Rightarrow> (exn + js) \<times> world" where
  "getCadets supabase w =
     (let (r, w) = await_query supabase
            (sb_order ''total_score'' False (sb_select ''*'' (sb_from ''cadets''))) w
      in if truthy (error r)
         then (Inl (Thrown (error r)), console_error ''Error fetching cadets:'' (error r) w)
         else (Inr (js_or (data r) (JArray [])), w))"

definition getTasks :: "backend \<Rightarrow> world \<Rightarrow> (exn + js) \<times> world" where
  "getTasks supabase w =
     (let (r, w) = await_query supabase
            (sb_order ''created_at'' False
              (sb_eq ''status'' ''active'' (sb_select ''*'' (sb_from ''tasks'')))) w
      in if truthy (error r)
         then (Inl (Thrown (error r)), console_error ''Error fetching tasks:'' (error r) w)
         else (Inr (js_or (data r) (JArray [])), w))"

definition getNews :: "backend \<Rightarrow> world \<Rightarrow> (exn + js) \<times> world" where
  "getNews supabase w =
     (let (r, w) = await_query supabase
            (sb_order ''created_at'' False (sb_select ''*'' (sb_from ''news''))) w
      in if truthy (error r)
         then (Inl (Thrown (error r)), console_error ''Error fetching news:'' (error r) w)
         else (Inr (js_or (data r) (JArray [])), w))"

definition getAchievements :: "backend \<Rightarrow> world \<Rightarrow> (exn + js) \<times> world" where
  "getAchievements supabase w =
     (let (r, w) = await_query supabase
            (sb_order ''created_at'' False (sb_select ''*'' (sb_from ''achievements''))) w
      in if truthy (error r)
         then (Inl (Thrown (error r)),
               console_error ''Error fetching achievements:'' (error r) w)
         else (Inr (js_or (data r) (JArray [])), w))"

definition getAutoAchievements :: "backend \<Rightarrow> world \<Rightarrow> (exn + js) \<times> world" where
  "getAutoAchievements supabase w =
     (let (r, w) = await_query supabase
            (sb_order ''created_at'' False (sb_select ''*'' (sb_from ''auto_achievements''))) w
      in if truthy (error r)
         then (Inl (Thrown (error r)),
               console_error ''Error fetching auto achievements:'' (error r) w)
         else (Inr (js_or (data r) (JArray [])), w))"

text \<open>The column list of \<open>getCadetAchievements\<close>, a template literal of five lines.\<close>

definition cadet_achievements_columns :: string where
  "cadet_achievements_columns =
     [CHR 0x0A] @ ''      *,'' @ [CHR 0x0A] @
     ''      achievement:achievements(*),'' @ [CHR 0x0A] @
     ''      auto_achievement:auto_achievements(*)'' @ [CHR 0x0A] @ ''    ''"

definition getCadetAchievements :: "backend \<Rightarrow> string \<Rightarrow> world \<Rightarrow> (exn + js) \<times> world" where
  "getCadetAchievements supabase cadetId w =
     (let (r, w) = await_query supabase
            (sb_order ''awarded_date'' False
              (sb_eq ''cadet_id'' cadetId
                (sb_select cadet_achievements_columns (sb_from ''cadet_achievements'')))) w
      in if truthy (error r)
         then (Inl (Thrown (error r)),
               console_error ''Error fetching cadet achievements:'' (error r) w)
         else (Inr (js_or (data r) (JArray [])), w))"

definition getCadetScores :: "backend \<Rightarrow> string \<Rightarrow> world \<Rightarrow> (exn + js) \<times> world" where
  "getCadetScores supabase cadetId w =
     (let (r, w) = await_query supabase
            (sb_single (sb_eq ''cadet_id'' cadetId (sb_select ''*'' (sb_from ''scores'')))) w
      in if truthy (error r)
         then (Inl (Thrown (error r)),
               console_error ''Error fetching cadet scores:'' (error r) w)
         else (Inr (data r), w))"

definition getScoreHistory :: "backend \<Rightarrow> string \<Rightarrow> world \<Rightarrow> (exn + js) \<times> world" where
  "getScoreHistory supabase cadetId w =
     (let (r, w) = await_query supabase
            (sb_order ''created_at'' False
              (sb_eq ''cadet_id'' cadetId (sb_select ''*'' (sb_from ''score_history'')))) w
      in if truthy (error r)
         then (Inl (Thrown (error r)),
               console_error ''Error fetching score history:'' (error r) w)
         else (Inr (js_or (data r) (JArray [])), w))"

subsection \<open>Administration\<close>

text \<open>The argument of \<open>addCadetByAdmin\<close>; \<open>avatar_url\<close> is optional.\<close>

record cadetData =
  name :: string
  email :: string
  password :: string
  platoon :: string
  squad :: number
  avatar_url :: "string option"

text \<open>
  \<open>JSON.stringify(cadetData)\<close>: a property that is \<open>undefined\<close> is left out, a number
  that is not finite is written as \<open>null\<close>, and \<open>-0\<close> is written as \<open>0\<close>. Every other
  number is written as the shortest decimal that reads back as the same double.
\<close>

fun JSON_number :: "number \<Rightarrow> js" where
  "JSON_number (Finite x) = JNumber (Finite x)"
| "JSON_number PosZero = JNumber PosZero"
| "JSON_number NegZero = JNumber PosZero"
| "JSON_number n = JNull"

definition JSON_stringify :: "cadetData \<Rightarrow> js" where
  "JSON_stringify d =
     JObject ([(''name'', JString (name d)),
               (''email'', JString (email d)),
               (''password'', JString (password d)),
               (''platoon'', JString (platoon d)),
               (''squad'', JSON_number (squad d))]
              @ (case avatar_url d of None \<Rightarrow> [] | Some u \<Rightarrow> [(''avatar_url'', JString u)]))"

definition addCadetByAdmin :: "backend \<Rightarrow> cadetData \<Rightarrow> world \<Rightarrow> (exn + js) \<times> world" where
  "addCadetByAdmin supabase d w =
     (let (response, w) = await_fetch supabase
            \<lparr>url = supabaseUrl supabase @ ''/functions/v1/create-cadet'',
             http_method = ''POST'',
             headers = [(''Content-Type'', ''application/json''),
                        (''Authorization'', ''Bearer '' @ supabaseAnonKey supabase)],
             body = JSON_stringify d\<rparr> w
      in case response of
           Rejected e \<Rightarrow> (Inl (Thrown e), w)
         | Response ok json \<Rightarrow>
             if \<not> ok then
               (case json of
                  Inl e \<Rightarrow> (Inl (Thrown e), w)
                | Inr errorData \<Rightarrow>
                    (case get_prop errorData ''error'' of
                       Inl e \<Rightarrow> (Inl e, w)
                     | Inr m \<Rightarrow> (Inl (NewError (js_or m (JString ''Failed to create cadet''))), w)))
             else
               (case json of
                  Inl e \<Rightarrow> (Inl (Thrown e), w)
                | Inr result \<Rightarrow>
                    (case get_prop result ''cadet'' of
                       Inl e \<Rightarrow> (Inl e, w)
                     | Inr cadet \<Rightarrow> (Inr cadet, w))))"

text \<open>
  \<open>cadetData: Partial<Cadet>\<close> is any subset of a cadet's fields: an object, handed to
  \<open>update\<close> as it is. \<open>select()\<close> with no argument asks for every column.
\<close>

definition updateCadetByAdmin ::
  "backend \<Rightarrow> string \<Rightarrow> (string \<times> js) list \<Rightarrow> world \<Rightarrow> (exn + js) \<times> world" where
  "updateCadetByAdmin supabase cid cadetData w =
     (let (r, w) = await_query supabase
            (sb_single (sb_select ''*''
              (sb_eq ''id'' cid (sb_update cadetData (sb_from ''cadets''))))) w
      in if truthy (error r)
         then (Inl (Thrown (error r)), console_error ''Error updating cadet:'' (error r) w)
         else (Inr (data r), w))"

definition deleteCadet :: "backend \<Rightarrow> string \<Rightarrow> world \<Rightarrow> (exn + js) \<times> world" where
  "deleteCadet supabase cid w =
     (let (r, w) = await_query supabase
            (sb_eq ''id'' cid (sb_delete (sb_from ''cadets''))) w
      in if truthy (error r)
         then (Inl (Thrown (error r)), console_error ''Error deleting cadet:'' (error r) w)
         else (Inr JUndefined, w))"

definition getCadetById :: "backend \<Rightarrow> string \<Rightarrow> world \<Rightarrow> (exn + js) \<times> world" where
  "getCadetById supabase cid w =
     (let (r, w) = await_query supabase
            (sb_single (sb_eq ''id'' cid (sb_select ''*'' (sb_from ''cadets'')))) w
      in if truthy (error r)
         then (Inl (Thrown (error r)), console_error ''Error fetching cadet:'' (error r) w)
         else (Inr (data r), w))"

subsection \<open>Authentication functions\<close>

definition signUp :: "backend \<Rightarrow> string \<Rightarrow> string \<Rightarrow> world \<Rightarrow> (exn + js) \<times> world" where
  "signUp supabase em pw w =
     (let (r, w) = await_auth supabase (AuthSignUp em pw) w
      in if truthy (auth_error r)
         then (Inl (Thrown (auth_error r)),
               console_error ''Error signing up:'' (auth_error r) w)
         else (Inr (JObject (auth_data r)), w))"

definition signIn :: "backend \<Rightarrow> string \<Rightarrow> string \<Rightarrow> world \<Rightarrow> (exn + js) \<times> world" where
  "signIn supabase em pw w =
     (let (r, w) = await_auth supabase (AuthSignInWithPassword em pw) w
      in if truthy (auth_error r)
         then (Inl (Thrown (auth_error r)),
               console_error ''Error signing in:'' (auth_error r) w)
         else (Inr (JObject (auth_data r)), w))"

definition signOut :: "backend \<Rightarrow> world \<Rightarrow> (exn + js) \<times> world" where
  "signOut supabase w =
     (let (r, w) = await_auth supabase AuthSignOut w
      in if truthy (auth_error r)
         then (Inl (Thrown (auth_error r)),
               console_error ''Error signing out:'' (auth_error r) w)
         else (Inr JUndefined, w))"

definition getCurrentUser :: "backend \<Rightarrow> world \<Rightarrow> (exn + js) \<times> world" where
  "getCurrentUser supabase w =
     (let (r, w) = await_auth supabase AuthGetUser w;
          user = (case map_of (auth_data r) ''user'' of Some u \<Rightarrow> u | None \<Rightarrow> JUndefined)
      in if truthy (auth_error r)
         then (Inl (Thrown (auth_error r)),
               console_error ''Error getting current user:'' (auth_error r) w)
         else (Inr user, w))"

subsection \<open>The exported operations\<close>

text \<open>One constructor for each exported function, with its arguments.\<close>

datatype call =
    GetCadets
  | GetTasks
  | GetNews
  | GetAchievements
  | GetAutoAchievements
  | GetCadetAchievements string
  | GetCadetScores string
  | GetScoreHistory string
  | AddCadetByAdmin cadetData
  | UpdateCadetByAdmin string "(string \<times> js) list"
  | DeleteCadet string
  | GetCadetById string
  | SignUp string string
  | SignIn string string
  | SignOut
  | GetCurrentUser

fun run :: "backend \<Rightarrow> call \<Rightarrow> world \<Rightarrow> (exn + js) \<times> world" where
  "run supabase GetCadets = getCadets supabase"
| "run supabase GetTasks = getTasks supabase"
| "run supabase GetNews = getNews supabase"
| "run supabase GetAchievements = getAchievements supabase"
| "run supabase GetAutoAchievements = getAutoAchievements supabase"
| "run supabase (GetCadetAchievements cadetId) = getCadetAchievements supabase cadetId"
| "run supabase (GetCadetScores cadetId) = getCadetScores supabase cadetId"
| "run supabase (GetScoreHistory cadetId) = getScoreHistory supabase cadetId"
| "run supabase (AddCadetByAdmin d) = addCadetByAdmin supabase d"
| "run supabase (UpdateCadetByAdmin cid d) = updateCadetByAdmin supabase cid d"
| "run supabase (DeleteCadet cid) = deleteCadet supabase cid"
| "run supabase (GetCadetById cid) = getCadetById supabase cid"
| "run supabase (SignUp em pw) = signUp supabase em pw"
| "run supabase (SignIn em pw) = signIn supabase em pw"
| "run supabase SignOut = signOut supabase"
| "run supabase GetCurrentUser = getCurrentUser supabase"

subsection \<open>What one call sends and what it is answered\<close>

text \<open>The requests a call adds to those already sent.\<close>

definition issued :: "backend \<Rightarrow> call \<Rightarrow> world \<Rightarrow> request list" where
  "issued supabase c w = drop (length (sent w)) (sent (snd (run supabase c w)))"

datatype answer = QueryAnswer sdk_reply | AuthAnswer auth_reply | FetchAnswer fetch_reply

fun respond :: "backend \<Rightarrow> request list \<Rightarrow> request \<Rightarrow> answer" where
  "respond supabase h (Query q) = QueryAnswer (postgrest supabase h q)"
| "respond supabase h (Auth a) = AuthAnswer (gotrue supabase h a)"
| "respond supabase h (Fetch x) = FetchAnswer (http supabase h x)"

text \<open>The \<open>error\<close> of an SDK answer; a \<open>fetch\<close> has none.\<close>

fun reported_error :: "answer \<Rightarrow> js" where
  "reported_error (QueryAnswer r) = error r"
| "reported_error (AuthAnswer r) = auth_error r"
| "reported_error (FetchAnswer r) = JUndefined"

fun uses_sdk :: "call \<Rightarrow> bool" where
  "uses_sdk (AddCadetByAdmin d) = False"
| "uses_sdk c = True"

fun list_getter :: "call \<Rightarrow> bool" where
  "list_getter GetCadets = True"
| "list_getter GetTasks = True"
| "list_getter GetNews = True"
| "list_getter GetAchievements = True"
| "list_getter GetAutoAchievements = True"
| "list_getter (GetCadetAchievements cadetId) = True"
| "list_getter (GetScoreHistory cadetId) = True"
| "list_getter c = False"

text \<open>The table a request names, and whether the request writes rows.\<close>

fun touches :: "request \<Rightarrow> string option" where
  "touches (Query q) = Some (table q)"
| "touches r = None"

fun is_write :: "request \<Rightarrow> bool" where
  "is_write (Query q) = (case action q of Update vals \<Rightarrow> True | Delete \<Rightarrow> True | _ \<Rightarrow> False)"
| "is_write r = False"

subsection \<open>A reference model of the hosted tables\<close>

text \<open>
  Which rows a read brings back is decided by the backend, which is not part of the
  module. This is the reading of a query that the SDK documents, over tables of rows: \<open>eq(col, v)\<close> keeps the rows whose
  column holds the text \<open>v\<close>, \<open>order(col, { ascending })\<close> sorts by the column in the
  database's order of values, and \<open>single()\<close> answers with the one row left as an
  object, or with an error when the rows left are none or several. The database's order
  of column values is given by a rank into a linear order.
\<close>

type_synonym row = "(string \<times> js) list"

definition column :: "string \<Rightarrow> row \<Rightarrow> js" where
  "column c r = (case map_of r c of Some v \<Rightarrow> v | None \<Rightarrow> JNull)"

record 'k database =
  tables :: "string \<Rightarrow> row list"
  rank :: "js \<Rightarrow> 'k"

definition matches :: "(string \<times> string) list \<Rightarrow> row \<Rightarrow> bool" where
  "matches fs r = list_all (\<lambda>(c, v). column c r = JString v) fs"

fun order_rows :: "(js \<Rightarrow> 'k::linorder) \<Rightarrow> (string \<times> bool) list \<Rightarrow> row list \<Rightarrow> row list" where
  "order_rows rk [] rows = rows"
| "order_rows rk ((c, ascending) # keys) rows =
     (let rest = order_rows rk keys rows
      in if ascending then sort_key (\<lambda>r. rk (column c r)) rest
         else rev (sort_key (\<lambda>r. rk (column c r)) (rev rest)))"

definition no_row_error :: js where
  "no_row_error =
     JObject [(''code'', JString ''PGRST116''),
              (''message'', JString ''JSON object requested, multiple (or no) rows returned'')]"

definition select_reply :: "('k::linorder) database \<Rightarrow> query \<Rightarrow> sdk_reply" where
  "select_reply db q =
     (let rows = order_rows (rank db) (ordering q)
                   (filter (matches (filters q)) (tables db (table q)))
      in if one_row q
         then (case rows of
                 [r] \<Rightarrow> \<lparr>data = JObject r, error = JNull\<rparr>
               | _ \<Rightarrow> \<lparr>data = JNull, error = no_row_error\<rparr>)
         else \<lparr>data = JArray (map JObject rows), error = JNull\<rparr>)"

text \<open>
  A backend whose reads of every column of a table are answered from the database;
  every other request (writes, embedded selects, authentication, the remote function) is
  answered as the given backend answers it.
\<close>

definition hosted :: "('k::linorder) database \<Rightarrow> backend \<Rightarrow> backend" where
  "hosted db supabase =
     supabase\<lparr>postgrest :=
       (\<lambda>h q. if action q = Select \<and> columns q = Some ''*'' then select_reply db q
              else postgrest supabase h q)\<rparr>"

subsection \<open>Concrete inputs\<close>

text \<open>A backend that answers every request with success and no data, and a fresh client.\<close>

definition silent :: backend where
  "silent =
     \<lparr>supabaseUrl = ''https://project.supabase.co'',
      supabaseAnonKey = ''anon-key'',
      postgrest = (\<lambda>h q. \<lparr>data = JNull, error = JNull\<rparr>),
      gotrue = (\<lambda>h a. \<lparr>auth_data = [(''user'', JNull)], auth_error = JNull\<rparr>),
      http = (\<lambda>h x. Response True (Inr (JObject [(''cadet'', JNull)])))\<rparr>"

definition fresh :: world where
  "fresh = \<lparr>sent = [], console = []\<rparr>"

definition refusing :: backend where
  "refusing =
     \<lparr>supabaseUrl = ''https://project.supabase.co'',
      supabaseAnonKey = ''anon-key'',
      postgrest = (\<lambda>h q. \<lparr>data = JNull,
                              error = JObject [(''message'', JString ''permission denied'')]\<rparr>),
      gotrue = (\<lambda>h a. \<lparr>auth_data = [(''user'', JNull)],
                          auth_error = JObject [(''message'', JString ''invalid login'')]\<rparr>),
      http = (\<lambda>h x. Response False (Inr (JObject [(''error'', JString ''email taken'')])))\<rparr>"

definition busy :: world where
  "busy = \<lparr>sent = [Auth AuthSignOut], console = [(''Error signing out:'', JString ''offline'')]\<rparr>"

definition recruit :: "number \<Rightarrow> cadetData" where
  "recruit n =
     \<lparr>name = ''Ivan Petrov'', email = ''ivan@example.com'', password = ''secret'',
      platoon = ''1'', squad = n, avatar_url = None\<rparr>"

definition score_row :: row where
  "score_row =
     [(''id'', JString ''s1''), (''cadet_id'', JString ''c1''),
      (''study_score'', JNumber (Finite (dbl False 5 3))),
      (''discipline_score'', JNumber (Finite (dbl False 25 0))),
      (''events_score'', JNumber (Finite (dbl False 5 1)))]"

definition roster :: "nat database" where
  "roster =
     \<lparr>tables = (\<lambda>t. if t = ''scores'' then [score_row] else []),
      rank = (\<lambda>v. case v of JString s \<Rightarrow> length s | _ \<Rightarrow> 0)\<rparr>"

section \<open>Properties\<close>

subsection \<open>Unfolding the operations\<close>

lemmas await_defs = await_query_def await_auth_def await_fetch_def console_error_def

lemmas builder_defs = sb_from_def sb_select_def sb_update_def sb_delete_def sb_eq_def
  sb_order_def sb_single_def

lemmas op_defs = getCadets_def getTasks_def getNews_def getAchievements_def
  getAutoAchievements_def getCadetAchievements_def getCadetScores_def getScoreHistory_def
  addCadetByAdmin_def updateCadetByAdmin_def deleteCadet_def getCadetById_def
  signUp_def signIn_def signOut_def getCurrentUser_def

lemma sent_run: "\<exists>r. sent (snd (run sb c w)) = sent w @ [r]"
  by (cases c)
    (simp_all add: op_defs await_defs split: prod.splits fetch_reply.splits sum.splits)

lemma sent_issued: "sent (snd (run sb c w)) = sent w @ issued sb c w"
  using sent_run [of sb c w] by (auto simp: issued_def)

text \<open>The request of each operation, as its builder chain reads.\<close>

lemma issued_run:
  "issued sb GetCadets w =
     [Query (sb_order ''total_score'' False (sb_select ''*'' (sb_from ''cadets'')))]"
  "issued sb GetTasks w =
     [Query (sb_order ''created_at'' False
       (sb_eq ''status'' ''active'' (sb_select ''*'' (sb_from ''tasks''))))]"
  "issued sb GetNews w =
     [Query (sb_order ''created_at'' False (sb_select ''*'' (sb_from ''news'')))]"
  "issued sb GetAchievements w =
     [Query (sb_order ''created_at'' False (sb_select ''*'' (sb_from ''achievements'')))]"
  "issued sb GetAutoAchievements w =
     [Query (sb_order ''created_at'' False (sb_select ''*'' (sb_from ''auto_achievements'')))]"
  "issued sb (GetCadetAchievements cadetId) w =
     [Query (sb_order ''awarded_date'' False (sb_eq ''cadet_id'' cadetId
       (sb_select cadet_achievements_columns (sb_from ''cadet_achievements''))))]"
  "issued sb (GetCadetScores cadetId) w =
     [Query (sb_single (sb_eq ''cadet_id'' cadetId (sb_select ''*'' (sb_from ''scores''))))]"
  "issued sb (GetScoreHistory cadetId) w =
     [Query (sb_order ''created_at'' False
       (sb_eq ''cadet_id'' cadetId (sb_select ''*'' (sb_from ''score_history''))))]"
  "issued sb (AddCadetByAdmin d) w =
     [Fetch \<lparr>url = supabaseUrl sb @ ''/functions/v1/create-cadet'',
             http_method = ''POST'',
             headers = [(''Content-Type'', ''application/json''),
                        (''Authorization'', ''Bearer '' @ supabaseAnonKey sb)],
             body = JSON_stringify d\<rparr>]"
  "issued sb (UpdateCadetByAdmin cid vals) w =
     [Query (sb_single (sb_select ''*''
       (sb_eq ''id'' cid (sb_update vals (sb_from ''cadets'')))))]"
  "issued sb (DeleteCadet cid) w = [Query (sb_eq ''id'' cid (sb_delete (sb_from ''cadets'')))]"
  "issued sb (GetCadetById cid) w =
     [Query (sb_single (sb_eq ''id'' cid (sb_select ''*'' (sb_from ''cadets''))))]"
  "issued sb (SignUp em pw) w = [Auth (AuthSignUp em pw)]"
  "issued sb (SignIn em pw) w = [Auth (AuthSignInWithPassword em pw)]"
  "issued sb SignOut w = [Auth AuthSignOut]"
  "issued sb GetCurrentUser w = [Auth AuthGetUser]"
  by (simp_all add: issued_def op_defs await_defs
      split: prod.splits fetch_reply.splits sum.splits)

subsection \<open>Reads answered by the reference tables\<close>

lemma matches_one: "matches [(c, v)] = (\<lambda>r. column c r = JString v)"
  by (rule ext) (simp add: matches_def)

lemma hosted_getTasks:
  "fst (run (hosted db sb) GetTasks w) =
     Inr (JArray (map JObject (order_rows (rank db) [(''created_at'', False)]
       (filter (\<lambda>r. column ''status'' r = JString ''active'') (tables db ''tasks'')))))"
  by (simp add: getTasks_def await_defs builder_defs hosted_def select_reply_def
      js_or_def matches_one del: order_rows.simps)

lemma hosted_getScoreHistory:
  "fst (run (hosted db sb) (GetScoreHistory cid) w) =
     Inr (JArray (map JObject (order_rows (rank db) [(''created_at'', False)]
       (filter (\<lambda>r. column ''cadet_id'' r = JString cid) (tables db ''score_history'')))))"
  by (simp add: getScoreHistory_def await_defs builder_defs hosted_def select_reply_def
      js_or_def matches_one del: order_rows.simps)

lemma hosted_getCadetScores:
  "fst (run (hosted db sb) (GetCadetScores cid) w) =
     (case filter (\<lambda>r. column ''cadet_id'' r = JString cid) (tables db ''scores'') of
        [r] \<Rightarrow> Inr (JObject r)
      | _ \<Rightarrow> Inl (Thrown no_row_error))"
  by (simp add: getCadetScores_def await_defs builder_defs hosted_def select_reply_def
      matches_one no_row_error_def split: list.splits)

lemma hosted_getCadetById:
  "fst (run (hosted db sb) (GetCadetById cid) w) =
     (case filter (\<lambda>r. column ''id'' r = JString cid) (tables db ''cadets'') of
        [r] \<Rightarrow> Inr (JObject r)
      | _ \<Rightarrow> Inl (Thrown no_row_error))"
  by (simp add: getCadetById_def await_defs builder_defs hosted_def select_reply_def
      matches_one no_row_error_def split: list.splits)

lemma mset_order_rows: "mset (order_rows rk keys rows) = mset rows"
  by (induction rk keys rows rule: order_rows.induct) (simp_all add: Let_def)

lemma sorted_desc:
  "sorted_wrt (\<lambda>a b. rk (column c b) \<le> rk (column c a)) (order_rows rk [(c, False)] rows)"
proof -
  have "sorted (map (\<lambda>r. rk (column c r)) (sort_key (\<lambda>r. rk (column c r)) (rev rows)))"
    by (rule sorted_sort_key)
  then have "sorted_wrt (\<lambda>a b. rk (column c a) \<le> rk (column c b))
      (sort_key (\<lambda>r. rk (column c r)) (rev rows))"
    by (simp add: sorted_map)
  then show ?thesis
    by (simp add: sorted_wrt_rev)
qed

subsection \<open>Results of the operations\<close>

lemma fst_addCadetByAdmin:
  "fst (addCadetByAdmin sb d w) =
     (case http sb (sent w)
             \<lparr>url = supabaseUrl sb @ ''/functions/v1/create-cadet'',
              http_method = ''POST'',
              headers = [(''Content-Type'', ''application/json''),
                         (''Authorization'', ''Bearer '' @ supabaseAnonKey sb)],
              body = JSON_stringify d\<rparr> of
        Rejected e \<Rightarrow> Inl (Thrown e)
      | Response ok json \<Rightarrow>
          (case json of
             Inl e \<Rightarrow> Inl (Thrown e)
           | Inr v \<Rightarrow>
               if \<not> ok then
                 (case get_prop v ''error'' of
                    Inl e \<Rightarrow> Inl e
                  | Inr m \<Rightarrow> Inl (NewError (js_or m (JString ''Failed to create cadet''))))
               else get_prop v ''cadet''))"
  by (simp add: addCadetByAdmin_def await_defs split: fetch_reply.splits sum.splits)

lemma roster_scores:
  "filter (\<lambda>r. column ''cadet_id'' r = JString ''c1'') (tables roster ''scores'') = [score_row]"
  "filter (\<lambda>r. column ''cadet_id'' r = JString ''c2'') (tables roster ''scores'') = []"
  "filter (\<lambda>r. column ''id'' r = JString ''c2'') (tables roster ''cadets'') = []"
  by (simp_all add: roster_def score_row_def column_def)

subsection \<open>Failure of the backend call\<close>

text \<open>
  Claim C1, as the code has it. Let \<open>r\<close> be the request a call sends. When the
  operation calls the SDK (every one but \<open>addCadetByAdmin\<close>) and the answer's \<open>error\<close> is
  truthy, the operation throws that very value and writes it to the console once.
  \<open>addCadetByAdmin\<close> throws as follows. A rejection of \<open>fetch\<close> or of
  \<open>response.json()\<close> is thrown as it is. On a response that is not ok whose body is
  \<open>null\<close>, reading its \<open>error\<close> throws a TypeError. On a response that is not ok whose
  body is an object, a new Error is thrown, made from the body's \<open>error\<close> property when
  that is truthy and from \<open>'Failed to create cadet'\<close> otherwise; any other body gives the
  new Error of \<open>'Failed to create cadet'\<close>. In every case the one request is all that was
  sent: nothing is retried.
\<close>

theorem sdk_error_logged_and_rethrown:
  assumes "issued sb c w = [r]"
  shows "(uses_sdk c \<and> truthy (reported_error (respond sb (sent w) r)) \<longrightarrow>
           fst (run sb c w) = Inl (Thrown (reported_error (respond sb (sent w) r))) \<and>
           map snd (console (snd (run sb c w))) =
             map snd (console w) @ [reported_error (respond sb (sent w) r)]) \<and>
         (\<forall>e. \<not> uses_sdk c \<and> respond sb (sent w) r = FetchAnswer (Rejected e) \<longrightarrow>
           fst (run sb c w) = Inl (Thrown e)) \<and>
         (\<forall>ok e. \<not> uses_sdk c \<and> respond sb (sent w) r = FetchAnswer (Response ok (Inl e)) \<longrightarrow>
           fst (run sb c w) = Inl (Thrown e)) \<and>
         (\<forall>v. \<not> uses_sdk c \<and> respond sb (sent w) r = FetchAnswer (Response False (Inr v)) \<and>
              (v = JNull \<or> v = JUndefined) \<longrightarrow>
           fst (run sb c w) = Inl TypeError) \<and>
         (\<forall>kvs. \<not> uses_sdk c \<and>
              respond sb (sent w) r = FetchAnswer (Response False (Inr (JObject kvs))) \<longrightarrow>
           fst (run sb c w) =
             Inl (NewError (case map_of kvs ''error'' of
                              Some m \<Rightarrow> if truthy m then m else JString ''Failed to create cadet''
                            | None \<Rightarrow> JString ''Failed to create cadet''))) \<and>
         (\<forall>v. \<not> uses_sdk c \<and> respond sb (sent w) r = FetchAnswer (Response False (Inr v)) \<and>
              v \<noteq> JNull \<and> v \<noteq> JUndefined \<and> (\<forall>kvs. v \<noteq> JObject kvs) \<longrightarrow>
           fst (run sb c w) = Inl (NewError (JString ''Failed to create cadet''))) \<and>
         sent (snd (run sb c w)) = sent w @ [r]"
proof (cases c)
  case (AddCadetByAdmin d)
  have "sent (snd (run sb c w)) = sent w @ [r]"
    using sent_issued [of sb c w] assms by simp
  moreover have "get_prop v ''error'' = Inr JUndefined"
    if "v \<noteq> JNull" and "v \<noteq> JUndefined" and "\<forall>kvs. v \<noteq> JObject kvs" for v
    using that by (cases v) simp_all
  ultimately show ?thesis
    using assms AddCadetByAdmin
    by (auto simp: issued_run fst_addCadetByAdmin js_or_def split: option.splits)
qed (use assms in \<open>auto simp: issued_run op_defs await_defs split: prod.splits\<close>)

text \<open>
  At a backend that refuses every table query, \<open>getCadets\<close> throws the backend's error
  object and logs it.
\<close>

theorem sdk_error_logged_and_rethrown_witness:
  "issued refusing GetCadets fresh =
     [Query (sb_order ''total_score'' False (sb_select ''*'' (sb_from ''cadets'')))] \<and>
   uses_sdk GetCadets \<and>
   truthy (JObject [(''message'', JString ''permission denied'')]) \<and>
   fst (run refusing GetCadets fresh) =
     Inl (Thrown (JObject [(''message'', JString ''permission denied'')])) \<and>
   map snd (console (snd (run refusing GetCadets fresh))) =
     [JObject [(''message'', JString ''permission denied'')]] \<and>
   length (sent (snd (run refusing GetCadets fresh))) = 1"
  using sdk_error_logged_and_rethrown [of refusing GetCadets fresh
      "Query (sb_order ''total_score'' False (sb_select ''*'' (sb_from ''cadets'')))"]
  by (simp add: issued_run refusing_def fresh_def)

text \<open>
  Claim C1 as stated fails for \<open>addCadetByAdmin\<close>: on a response that is not ok with the
  body \<open>{ error: 'email taken' }\<close> it throws a new Error made from the message, and
  writes nothing to the console.
\<close>

theorem addCadetByAdmin_throws_new_error:
  "fst (run refusing (AddCadetByAdmin (recruit (Finite (dbl False 1 1)))) fresh) =
     Inl (NewError (JString ''email taken'')) \<and>
   console (snd (run refusing (AddCadetByAdmin (recruit (Finite (dbl False 1 1)))) fresh)) = []"
  by (simp add: addCadetByAdmin_def await_defs refusing_def fresh_def js_or_def)

subsection \<open>One request for each call\<close>

text \<open>
  Claim C2. Whatever the operation, its arguments, the backend and the client's state,
  a call adds exactly one request to those already sent and leaves the earlier ones as
  they were; the request is a table query, an authentication call, or a \<open>fetch\<close> with
  the method POST. This holds for every backend, so also for one that answers with an
  error.
\<close>

theorem exactly_one_request:
  "length (issued sb c w) = 1 \<and> sent (snd (run sb c w)) = sent w @ issued sb c w \<and>
   ((\<exists>q. issued sb c w = [Query q]) \<or> (\<exists>a. issued sb c w = [Auth a]) \<or>
    (\<exists>x. issued sb c w = [Fetch x] \<and> http_method x = ''POST''))"
proof (intro conjI)
  show "sent (snd (run sb c w)) = sent w @ issued sb c w"
    by (rule sent_issued)
  show "length (issued sb c w) = 1"
    by (cases c) (simp_all add: issued_run)
  show "(\<exists>q. issued sb c w = [Query q]) \<or> (\<exists>a. issued sb c w = [Auth a]) \<or>
    (\<exists>x. issued sb c w = [Fetch x] \<and> http_method x = ''POST'')"
    by (cases c) (simp_all add: issued_run)
qed

subsection \<open>Arguments reach the backend\<close>

lemma JSON_stringify_fields:
  "\<exists>kvs. JSON_stringify d = JObject kvs \<and>
     map fst kvs = [''name'', ''email'', ''password'', ''platoon'', ''squad''] @
       (case avatar_url d of None \<Rightarrow> [] | Some u \<Rightarrow> [''avatar_url'']) \<and>
     map_of kvs ''name'' = Some (JString (name d)) \<and>
     map_of kvs ''email'' = Some (JString (email d)) \<and>
     map_of kvs ''password'' = Some (JString (password d)) \<and>
     map_of kvs ''platoon'' = Some (JString (platoon d)) \<and>
     map_of kvs ''avatar_url'' = map_option JString (avatar_url d) \<and>
     map_of kvs ''squad'' =
       Some (if squad d \<in> {NaN, PosInfinity, NegInfinity} then JNull
             else if squad d = NegZero then JNumber PosZero
             else JNumber (squad d))"
  by (cases "squad d") (simp_all add: JSON_stringify_def split: option.splits)

text \<open>
  Claim C3, as the code has it. Every call sends its request, whatever its arguments.
  Each argument of an SDK wrapper stands in the request as it was given and in its own
  place: \<open>cadetId\<close> or \<open>id\<close> as the value of the one \<open>eq\<close> filter, \<open>cadetData\<close> as the
  argument of \<open>update\<close>, \<open>email\<close> and \<open>password\<close> in the authentication call. The body
  that \<open>addCadetByAdmin\<close> posts has the properties of \<open>cadetData\<close> and no others, every
  string as it was given and an absent \<open>avatar_url\<close> left out; \<open>squad\<close> is as it was
  given, except that \<open>NaN\<close>, \<open>Infinity\<close> and \<open>-Infinity\<close> are written as \<open>null\<close> and
  \<open>-0\<close> as \<open>0\<close>.
\<close>

theorem arguments_reach_backend:
  "length (issued sb c w) = 1 \<and>
   issued sb (GetCadetAchievements cadetId) w =
     [Query \<lparr>table = ''cadet_achievements'', action = Select,
             columns = Some cadet_achievements_columns, filters = [(''cadet_id'', cadetId)],
             ordering = [(''awarded_date'', False)], one_row = False\<rparr>] \<and>
   issued sb (GetCadetScores cadetId) w =
     [Query \<lparr>table = ''scores'', action = Select, columns = Some ''*'',
             filters = [(''cadet_id'', cadetId)], ordering = [], one_row = True\<rparr>] \<and>
   issued sb (GetScoreHistory cadetId) w =
     [Query \<lparr>table = ''score_history'', action = Select, columns = Some ''*'',
             filters = [(''cadet_id'', cadetId)], ordering = [(''created_at'', False)],
             one_row = False\<rparr>] \<and>
   issued sb (UpdateCadetByAdmin cid vals) w =
     [Query \<lparr>table = ''cadets'', action = Update vals, columns = Some ''*'',
             filters = [(''id'', cid)], ordering = [], one_row = True\<rparr>] \<and>
   issued sb (DeleteCadet cid) w =
     [Query \<lparr>table = ''cadets'', action = Delete, columns = None,
             filters = [(''id'', cid)], ordering = [], one_row = False\<rparr>] \<and>
   issued sb (GetCadetById cid) w =
     [Query \<lparr>table = ''cadets'', action = Select, columns = Some ''*'',
             filters = [(''id'', cid)], ordering = [], one_row = True\<rparr>] \<and>
   issued sb (SignUp em pw) w = [Auth (AuthSignUp em pw)] \<and>
   issued sb (SignIn em pw) w = [Auth (AuthSignInWithPassword em pw)] \<and>
   (\<exists>kvs. issued sb (AddCadetByAdmin d) w =
       [Fetch \<lparr>url = supabaseUrl sb @ ''/functions/v1/create-cadet'',
               http_method = ''POST'',
               headers = [(''Content-Type'', ''application/json''),
                          (''Authorization'', ''Bearer '' @ supabaseAnonKey sb)],
               body = JObject kvs\<rparr>] \<and>
     map fst kvs = [''name'', ''email'', ''password'', ''platoon'', ''squad''] @
       (case avatar_url d of None \<Rightarrow> [] | Some u \<Rightarrow> [''avatar_url'']) \<and>
     map_of kvs ''name'' = Some (JString (name d)) \<and>
     map_of kvs ''email'' = Some (JString (email d)) \<and>
     map_of kvs ''password'' = Some (JString (password d)) \<and>
     map_of kvs ''platoon'' = Some (JString (platoon d)) \<and>
     map_of kvs ''avatar_url'' = map_option JString (avatar_url d) \<and>
     map_of kvs ''squad'' =
       Some (if squad d \<in> {NaN, PosInfinity, NegInfinity} then JNull
             else if squad d = NegZero then JNumber PosZero
             else JNumber (squad d)))"
proof (intro conjI)
  show "length (issued sb c w) = 1"
    by (cases c) (simp_all add: issued_run)
  show "\<exists>kvs. issued sb (AddCadetByAdmin d) w =
       [Fetch \<lparr>url = supabaseUrl sb @ ''/functions/v1/create-cadet'',
               http_method = ''POST'',
               headers = [(''Content-Type'', ''application/json''),
                          (''Authorization'', ''Bearer '' @ supabaseAnonKey sb)],
               body = JObject kvs\<rparr>] \<and>
     map fst kvs = [''name'', ''email'', ''password'', ''platoon'', ''squad''] @
       (case avatar_url d of None \<Rightarrow> [] | Some u \<Rightarrow> [''avatar_url'']) \<and>
     map_of kvs ''name'' = Some (JString (name d)) \<and>
     map_of kvs ''email'' = Some (JString (email d)) \<and>
     map_of kvs ''password'' = Some (JString (password d)) \<and>
     map_of kvs ''platoon'' = Some (JString (platoon d)) \<and>
     map_of kvs ''avatar_url'' = map_option JString (avatar_url d) \<and>
     map_of kvs ''squad'' =
       Some (if squad d \<in> {NaN, PosInfinity, NegInfinity} then JNull
             else if squad d = NegZero then JNumber PosZero
             else JNumber (squad d))"
    using JSON_stringify_fields [of d] by (auto simp: issued_run)
qed (simp_all add: issued_run builder_defs)

text \<open>
  A recruit of squad 2: the body posted holds the name and the squad as given.
\<close>

theorem arguments_reach_backend_witness:
  "squad (recruit (Finite (dbl False 1 1))) \<notin> {NaN, PosInfinity, NegInfinity, NegZero} \<and>
   (\<exists>kvs. issued silent (AddCadetByAdmin (recruit (Finite (dbl False 1 1)))) fresh =
       [Fetch \<lparr>url = ''https://project.supabase.co/functions/v1/create-cadet'',
               http_method = ''POST'',
               headers = [(''Content-Type'', ''application/json''),
                          (''Authorization'', ''Bearer anon-key'')],
               body = JObject kvs\<rparr>] \<and>
     map_of kvs ''name'' = Some (JString ''Ivan Petrov'') \<and>
     map_of kvs ''squad'' = Some (JNumber (Finite (dbl False 1 1))))"
proof -
  note t = arguments_reach_backend [where sb = silent and w = fresh and c = GetCadets
      and cadetId = "[]" and cid = "[]" and vals = "[]" and em = "[]" and pw = "[]"
      and d = "recruit (Finite (dbl False 1 1))"]
  from t obtain kvs where
    sent: "issued silent (AddCadetByAdmin (recruit (Finite (dbl False 1 1)))) fresh =
       [Fetch \<lparr>url = supabaseUrl silent @ ''/functions/v1/create-cadet'',
               http_method = ''POST'',
               headers = [(''Content-Type'', ''application/json''),
                          (''Authorization'', ''Bearer '' @ supabaseAnonKey silent)],
               body = JObject kvs\<rparr>]"
    and name: "map_of kvs ''name'' = Some (JString (name (recruit (Finite (dbl False 1 1)))))"
    and squad: "map_of kvs ''squad'' =
       Some (if squad (recruit (Finite (dbl False 1 1))) \<in> {NaN, PosInfinity, NegInfinity}
             then JNull
             else if squad (recruit (Finite (dbl False 1 1))) = NegZero then JNumber PosZero
             else JNumber (squad (recruit (Finite (dbl False 1 1)))))"
    by blast
  from sent name squad show ?thesis
    by (intro conjI exI [of _ kvs]) (simp_all add: recruit_def silent_def)
qed

text \<open>
  Claim C3 as stated fails at \<open>addCadetByAdmin\<close>: \<open>JSON.stringify\<close> writes \<open>NaN\<close> and
  \<open>Infinity\<close> as \<open>null\<close>, so two different arguments give the same request, and it
  writes \<open>-0\<close> as \<open>0\<close>.
\<close>

theorem squad_rewritten_by_JSON:
  "issued silent (AddCadetByAdmin (recruit NaN)) fresh =
     issued silent (AddCadetByAdmin (recruit PosInfinity)) fresh \<and>
   AddCadetByAdmin (recruit NaN) \<noteq> AddCadetByAdmin (recruit PosInfinity) \<and>
   get_prop (JSON_stringify (recruit NaN)) ''squad'' = Inr JNull \<and>
   get_prop (JSON_stringify (recruit NegZero)) ''squad'' = Inr (JNumber PosZero)"
  by (simp add: issued_run JSON_stringify_def recruit_def)

subsection \<open>Creating a cadet\<close>

text \<open>
  Claim C4. What \<open>addCadetByAdmin\<close> sends is one \<open>fetch\<close>: a POST to the
  \<open>create-cadet\<close> function under the configured URL, carrying the serialized argument.
  The request names no table and writes no rows, and it is the only addition to the
  requests sent.
\<close>

theorem addCadetByAdmin_single_post:
  "issued sb (AddCadetByAdmin d) w =
     [Fetch \<lparr>url = supabaseUrl sb @ ''/functions/v1/create-cadet'',
             http_method = ''POST'',
             headers = [(''Content-Type'', ''application/json''),
                        (''Authorization'', ''Bearer '' @ supabaseAnonKey sb)],
             body = JSON_stringify d\<rparr>] \<and>
   map touches (issued sb (AddCadetByAdmin d) w) = [None] \<and>
   map is_write (issued sb (AddCadetByAdmin d) w) = [False] \<and>
   sent (snd (run sb (AddCadetByAdmin d) w)) = sent w @ issued sb (AddCadetByAdmin d) w"
  using sent_issued [of sb "AddCadetByAdmin d" w] by (simp add: issued_run)

subsection \<open>Score history\<close>

text \<open>
  Claim C5. No operation sends a request that writes the \<open>score_history\<close> table. A
  request names that table exactly when the operation is \<open>getScoreHistory\<close>. Answered
  from the reference tables, \<open>getScoreHistory(cadetId)\<close> resolves to an array of rows
  that all hold \<open>cadetId\<close> in their \<open>cadet_id\<close> column: exactly the rows of the table
  that do.
\<close>

theorem score_history_read_only:
  "list_all (\<lambda>r. \<not> (is_write r \<and> touches r = Some ''score_history'')) (issued sb c w) \<and>
   (Some ''score_history'' \<in> set (map touches (issued sb c w))) =
     (case c of GetScoreHistory cadetId \<Rightarrow> True | _ \<Rightarrow> False) \<and>
   (\<exists>rows. fst (run (hosted db sb) (GetScoreHistory cid) w) = Inr (JArray (map JObject rows)) \<and>
      list_all (\<lambda>r. column ''cadet_id'' r = JString cid) rows \<and>
      mset rows = filter_mset (\<lambda>r. column ''cadet_id'' r = JString cid)
                    (mset (tables db ''score_history'')))"
proof (intro conjI)
  show "list_all (\<lambda>r. \<not> (is_write r \<and> touches r = Some ''score_history'')) (issued sb c w)"
    by (cases c) (simp_all add: issued_run builder_defs)
  show "(Some ''score_history'' \<in> set (map touches (issued sb c w))) =
     (case c of GetScoreHistory cadetId \<Rightarrow> True | _ \<Rightarrow> False)"
    by (cases c) (simp_all add: issued_run builder_defs)
  let ?rows = "order_rows (rank db) [(''created_at'', False)]
       (filter (\<lambda>r. column ''cadet_id'' r = JString cid) (tables db ''score_history''))"
  have m: "mset ?rows = filter_mset (\<lambda>r. column ''cadet_id'' r = JString cid)
                    (mset (tables db ''score_history''))"
    by (simp only: mset_order_rows mset_filter)
  have "\<forall>r \<in># mset ?rows. column ''cadet_id'' r = JString cid"
    unfolding m by simp
  then have a: "list_all (\<lambda>r. column ''cadet_id'' r = JString cid) ?rows"
    by (simp add: list_all_iff)
  show "\<exists>rows. fst (run (hosted db sb) (GetScoreHistory cid) w) = Inr (JArray (map JObject rows)) \<and>
      list_all (\<lambda>r. column ''cadet_id'' r = JString cid) rows \<and>
      mset rows = filter_mset (\<lambda>r. column ''cadet_id'' r = JString cid)
                    (mset (tables db ''score_history''))"
    using hosted_getScoreHistory [of db sb cid w] a m by blast
qed

subsection \<open>Scores of a cadet\<close>

text \<open>
  Claim C6, as the code has it. \<open>getCadetScores(cadetId)\<close> sends one read of every
  column of the \<open>scores\<close> table, filtered by \<open>cadet_id\<close>, that asks for a single row and
  not a list. Whatever the backend, when the answer has no error the call resolves to
  the answer's data as it is: the wrapper checks no field and adds none. Answered from
  the reference tables, it resolves to the cadet's row as an object when exactly one
  row matches, and throws the no-row error when none or several match.
\<close>

theorem getCadetScores_single_record:
  "issued sb (GetCadetScores cid) w =
     [Query \<lparr>table = ''scores'', action = Select, columns = Some ''*'',
             filters = [(''cadet_id'', cid)], ordering = [], one_row = True\<rparr>] \<and>
   (\<forall>a. postgrest sb (sent w)
          \<lparr>table = ''scores'', action = Select, columns = Some ''*'',
           filters = [(''cadet_id'', cid)], ordering = [], one_row = True\<rparr> = a \<and>
        \<not> truthy (error a) \<longrightarrow>
      fst (run sb (GetCadetScores cid) w) = Inr (data a)) \<and>
   (\<forall>r. filter (\<lambda>r. column ''cadet_id'' r = JString cid) (tables db ''scores'') = [r] \<longrightarrow>
      fst (run (hosted db sb) (GetCadetScores cid) w) = Inr (JObject r)) \<and>
   (length (filter (\<lambda>r. column ''cadet_id'' r = JString cid) (tables db ''scores'')) \<noteq> 1 \<longrightarrow>
      fst (run (hosted db sb) (GetCadetScores cid) w) = Inl (Thrown no_row_error))"
proof (intro conjI allI impI)
  show "issued sb (GetCadetScores cid) w =
     [Query \<lparr>table = ''scores'', action = Select, columns = Some ''*'',
             filters = [(''cadet_id'', cid)], ordering = [], one_row = True\<rparr>]"
    by (simp add: issued_run builder_defs)
next
  fix a
  assume "postgrest sb (sent w)
          \<lparr>table = ''scores'', action = Select, columns = Some ''*'',
           filters = [(''cadet_id'', cid)], ordering = [], one_row = True\<rparr> = a \<and>
        \<not> truthy (error a)"
  then show "fst (run sb (GetCadetScores cid) w) = Inr (data a)"
    by (auto simp: getCadetScores_def await_defs builder_defs)
next
  fix r
  assume "filter (\<lambda>r. column ''cadet_id'' r = JString cid) (tables db ''scores'') = [r]"
  then show "fst (run (hosted db sb) (GetCadetScores cid) w) = Inr (JObject r)"
    unfolding hosted_getCadetScores by simp
next
  assume "length (filter (\<lambda>r. column ''cadet_id'' r = JString cid) (tables db ''scores'')) \<noteq> 1"
  then show "fst (run (hosted db sb) (GetCadetScores cid) w) = Inl (Thrown no_row_error)"
    unfolding hosted_getCadetScores by (auto split: list.splits)
qed

text \<open>
  A table with one score record: the call for its cadet resolves to the record, and the
  call for another cadet throws.
\<close>

theorem getCadetScores_single_record_witness:
  "filter (\<lambda>r. column ''cadet_id'' r = JString ''c1'') (tables roster ''scores'') = [score_row] \<and>
   fst (run (hosted roster silent) (GetCadetScores ''c1'') fresh) = Inr (JObject score_row) \<and>
   length (filter (\<lambda>r. column ''cadet_id'' r = JString ''c2'') (tables roster ''scores'')) \<noteq> 1 \<and>
   fst (run (hosted roster silent) (GetCadetScores ''c2'') busy) = Inl (Thrown no_row_error)"
proof -
  note t1 = getCadetScores_single_record [of silent "''c1''" fresh roster]
  note t2 = getCadetScores_single_record [of silent "''c2''" busy roster]
  have one: "fst (run (hosted roster silent) (GetCadetScores ''c1'') fresh) =
      Inr (JObject score_row)"
    using conjunct1 [OF conjunct2 [OF conjunct2 [OF t1]]] roster_scores(1) by blast
  have none: "length (filter (\<lambda>r. column ''cadet_id'' r = JString ''c2'')
      (tables roster ''scores'')) \<noteq> 1"
    by (simp add: roster_scores(2))
  with conjunct2 [OF conjunct2 [OF conjunct2 [OF t2]]]
  have "fst (run (hosted roster silent) (GetCadetScores ''c2'') busy) =
      Inl (Thrown no_row_error)"
    by blast
  with one none roster_scores(1) show ?thesis
    by blast
qed

text \<open>
  Claim C6 as stated fails for a cadet with no row in \<open>scores\<close>: the call throws and
  returns no record. And the record resolved to has the columns of the stored row,
  whatever they are: here a row with none of the three score columns.
\<close>

theorem getCadetScores_throws_without_row:
  "filter (\<lambda>r. column ''cadet_id'' r = JString ''c2'') (tables roster ''scores'') = [] \<and>
   fst (run (hosted roster silent) (GetCadetScores ''c2'') fresh) = Inl (Thrown no_row_error) \<and>
   fst (run (hosted \<lparr>tables = (\<lambda>t. [[(''cadet_id'', JString ''c1'')]]), rank = (\<lambda>v. 0::nat)\<rparr>
               silent)
          (GetCadetScores ''c1'') fresh) = Inr (JObject [(''cadet_id'', JString ''c1'')])"
proof (intro conjI)
  show none: "filter (\<lambda>r. column ''cadet_id'' r = JString ''c2'') (tables roster ''scores'') = []"
    by (rule roster_scores)
  show "fst (run (hosted roster silent) (GetCadetScores ''c2'') fresh) =
      Inl (Thrown no_row_error)"
    unfolding hosted_getCadetScores none by simp
  show "fst (run (hosted \<lparr>tables = (\<lambda>t. [[(''cadet_id'', JString ''c1'')]]), rank = (\<lambda>v. 0::nat)\<rparr>
               silent)
          (GetCadetScores ''c1'') fresh) = Inr (JObject [(''cadet_id'', JString ''c1'')])"
    unfolding hosted_getCadetScores by (simp add: column_def)
qed

subsection \<open>No client-side state\<close>

text \<open>
  Claim C7. The value an operation resolves to, or throws, depends on the backend's
  answer to its request alone: two runs of the same call, on any two backends and in
  any two states of the client, end the same way when the answers are the same.
\<close>

theorem same_answer_same_result:
  assumes "issued sb c w = [r]" and "issued sb' c w' = [r']"
    and "respond sb (sent w) r = respond sb' (sent w') r'"
  shows "fst (run sb c w) = fst (run sb' c w')"
proof (cases c)
  case (AddCadetByAdmin d)
  with assms show ?thesis
    by (auto simp: issued_run fst_addCadetByAdmin)
qed (use assms in \<open>auto simp: issued_run op_defs await_defs split: prod.splits\<close>)

text \<open>
  \<open>getNews\<close> on a fresh client and on one that has sent a request and logged an error
  before, with another key configured: the same answer, the same result.
\<close>

theorem same_answer_same_result_witness:
  "issued silent GetNews fresh =
     [Query (sb_order ''created_at'' False (sb_select ''*'' (sb_from ''news'')))] \<and>
   issued (hosted roster silent) GetNews busy =
     [Query (sb_order ''created_at'' False (sb_select ''*'' (sb_from ''news'')))] \<and>
   respond silent (sent fresh)
       (Query (sb_order ''created_at'' False (sb_select ''*'' (sb_from ''news'')))) =
     respond (silent\<lparr>supabaseAnonKey := ''other-key''\<rparr>) (sent busy)
       (Query (sb_order ''created_at'' False (sb_select ''*'' (sb_from ''news'')))) \<and>
   fst (run silent GetNews fresh) =
     fst (run (silent\<lparr>supabaseAnonKey := ''other-key''\<rparr>) GetNews busy)"
  using same_answer_same_result [of silent GetNews fresh
      "Query (sb_order ''created_at'' False (sb_select ''*'' (sb_from ''news'')))"
      "silent\<lparr>supabaseAnonKey := ''other-key''\<rparr>" busy
      "Query (sb_order ''created_at'' False (sb_select ''*'' (sb_from ''news'')))"]
  by (simp add: issued_run silent_def)

subsection \<open>Lists are never null\<close>

text \<open>
  Claim C8. A getter that returns a list never resolves to \<open>null\<close> or \<open>undefined\<close>;
  when the answer has no error and no data, it resolves to the empty array.
\<close>

theorem list_getter_never_null:
  assumes "list_getter c"
  shows "fst (run sb c w) \<noteq> Inr JNull \<and> fst (run sb c w) \<noteq> Inr JUndefined \<and>
         (\<forall>r a. issued sb c w = [r] \<and> respond sb (sent w) r = QueryAnswer a \<and>
                \<not> truthy (error a) \<and> \<not> truthy (data a)
            \<longrightarrow> fst (run sb c w) = Inr (JArray []))"
  using assms
  by (cases c)
    (auto simp: issued_run op_defs await_defs js_or_def
      split: prod.splits fetch_reply.splits sum.splits)

text \<open>
  \<open>getScoreHistory\<close> at a backend that answers \<open>{ data: null, error: null }\<close>.
\<close>

theorem list_getter_never_null_witness:
  "list_getter (GetScoreHistory ''c1'') \<and>
   \<not> truthy (error (postgrest silent (sent fresh)
       (sb_order ''created_at'' False
         (sb_eq ''cadet_id'' ''c1'' (sb_select ''*'' (sb_from ''score_history'')))))) \<and>
   \<not> truthy (data (postgrest silent (sent fresh)
       (sb_order ''created_at'' False
         (sb_eq ''cadet_id'' ''c1'' (sb_select ''*'' (sb_from ''score_history'')))))) \<and>
   fst (run silent (GetScoreHistory ''c1'') fresh) = Inr (JArray [])"
  using list_getter_never_null [of "GetScoreHistory ''c1''" silent fresh]
  by (simp add: issued_run silent_def)

subsection \<open>Single rows are never null\<close>

text \<open>
  Claim C9. Answered from the reference tables, \<open>getCadetScores\<close> and \<open>getCadetById\<close>
  throw the backend's no-row error when no row matches, and neither ever resolves to
  \<open>null\<close>.
\<close>

theorem single_row_getters_throw_not_null:
  "(filter (\<lambda>r. column ''cadet_id'' r = JString cid) (tables db ''scores'') = [] \<longrightarrow>
      fst (run (hosted db sb) (GetCadetScores cid) w) = Inl (Thrown no_row_error)) \<and>
   fst (run (hosted db sb) (GetCadetScores cid) w) \<noteq> Inr JNull \<and>
   (filter (\<lambda>r. column ''id'' r = JString cid) (tables db ''cadets'') = [] \<longrightarrow>
      fst (run (hosted db sb) (GetCadetById cid) w) = Inl (Thrown no_row_error)) \<and>
   fst (run (hosted db sb) (GetCadetById cid) w) \<noteq> Inr JNull"
  unfolding hosted_getCadetScores hosted_getCadetById
  by (simp split: list.splits)

text \<open>
  A cadet that the tables do not know.
\<close>

theorem single_row_getters_throw_not_null_witness:
  "filter (\<lambda>r. column ''cadet_id'' r = JString ''c2'') (tables roster ''scores'') = [] \<and>
   fst (run (hosted roster silent) (GetCadetScores ''c2'') fresh) = Inl (Thrown no_row_error) \<and>
   filter (\<lambda>r. column ''id'' r = JString ''c2'') (tables roster ''cadets'') = [] \<and>
   fst (run (hosted roster silent) (GetCadetById ''c2'') fresh) = Inl (Thrown no_row_error)"
  using single_row_getters_throw_not_null [of "''c2''" roster silent fresh]
  by (simp add: roster_scores)

subsection \<open>Active tasks, newest first\<close>

text \<open>
  Claim C10. \<open>getTasks\<close> asks for the rows of \<open>tasks\<close> whose \<open>status\<close> is
  \<open>active\<close>, ordered by \<open>created_at\<close> descending. Answered from the reference tables,
  it resolves to exactly the active rows (each as often as the table holds it), and no
  row comes before one with a later \<open>created_at\<close>.
\<close>

theorem getTasks_active_newest_first:
  "(\<exists>q. issued sb GetTasks w = [Query q] \<and> table q = ''tasks'' \<and> action q = Select \<and>
        filters q = [(''status'', ''active'')] \<and> ordering q = [(''created_at'', False)]) \<and>
   (\<exists>rows. fst (run (hosted db sb) GetTasks w) = Inr (JArray (map JObject rows)) \<and>
      mset rows = filter_mset (\<lambda>r. column ''status'' r = JString ''active'')
                    (mset (tables db ''tasks'')) \<and>
      sorted_wrt (\<lambda>a b. rank db (column ''created_at'' b) \<le> rank db (column ''created_at'' a))
        rows)"
proof (intro conjI)
  show "\<exists>q. issued sb GetTasks w = [Query q] \<and> table q = ''tasks'' \<and> action q = Select \<and>
        filters q = [(''status'', ''active'')] \<and> ordering q = [(''created_at'', False)]"
    by (simp add: issued_run builder_defs)
  show "\<exists>rows. fst (run (hosted db sb) GetTasks w) = Inr (JArray (map JObject rows)) \<and>
      mset rows = filter_mset (\<lambda>r. column ''status'' r = JString ''active'')
                    (mset (tables db ''tasks'')) \<and>
      sorted_wrt (\<lambda>a b. rank db (column ''created_at'' b) \<le> rank db (column ''created_at'' a))
        rows"
    unfolding hosted_getTasks
    by (intro exI conjI, rule refl, simp only: mset_order_rows mset_filter, rule sorted_desc)
qed

end
